theory Spec2Isabelle
  imports Main
begin

section \<open>Order coordination (order.service.ts)\<close>

subsection \<open>Data model\<close>

text \<open>
  Modelled from the spec: the \<open>OrderStatus\<close> enum (\<open>@order/enums/order-status.enum\<close> is not
  among the sources). Section 4.2 of the specification names its four values.
\<close>

datatype OrderStatus = PENDING | PAID | FAILED | CANCELLED

text \<open>
  Identities (Mongo ObjectIds, Stripe customer ids, product references) are modelled by
  their string form, so \<open>_id.toString()\<close> is the identity.
\<close>

record LineItem =
  item_id :: string
  quantity :: nat

record CreateOrderDto =
  dto_items :: "LineItem list"
  dto_amount :: nat

record Order =
  order_id :: string
  items :: "LineItem list"
  amount :: nat
  status :: OrderStatus

record PaymentIntent =
  intent_id :: string
  client_secret :: string

datatype error =
    NotFoundException string
  | InsufficientStock string
  | DuplicateKeyError string
  | CastError string
  | MongoTransactionError string
  | ExternalError string

text \<open>One constructor per logger call of the source, carrying the interpolated values.\<close>

datatype log_entry =
    Log_PlacingOrder string nat
  | Log_CreatingOrder
  | Log_OrderCreated string
  | Log_OrderPlaced string
  | Log_ProcessingOrder string OrderStatus
  | Log_UpdatingOrder string
  | Log_OrderUpdated string
  | Log_UpdatingInventory
  | Log_OrderProcessed string
  | Error_FailedToProcess string error

text \<open>The externally visible effects, in the order in which they happen.\<close>

datatype effect =
    SessionStarted
  | TransactionStarted
  | TransactionCommitted
  | TransactionAborted
  | SessionEnded
  | OrderSaved string
  | PaymentIntentRequested nat "(string \<times> string) list" string
  | ConfirmationEmailRequested Order

text \<open>
  The world: the committed content of the order collection and of the stock, the log and
  the effect trace.
\<close>

record world =
  orders :: "string \<rightharpoonup> Order"
  stock :: "string \<Rightarrow> nat"
  logs :: "log_entry list"
  effects :: "effect list"

text \<open>
  The collaborators injected into \<open>OrderService\<close>. None of them is among the sources, so each
  is a parameter: the inventory adjuster works on the stock as seen by the transaction it
  is handed (section 4.4 of the specification) and either succeeds or raises; the notifier
  and the payment gateway either succeed or raise. What they raise is theirs to choose.
\<close>

record deps =
  inventoryService :: "LineItem list \<Rightarrow> (string \<Rightarrow> nat) \<Rightarrow> error option \<times> (string \<Rightarrow> nat)"
  emailService :: "Order \<Rightarrow> error option"
  stripeService :: "nat \<Rightarrow> (string \<times> string) list \<Rightarrow> string \<Rightarrow> error + PaymentIntent"

subsection \<open>The driver's client session\<close>

text \<open>
  A \<open>ClientSession\<close> of the MongoDB driver: the state of its transaction and the view of the
  database that operations carrying the session read and write. Committing publishes the
  view; aborting discards it.
\<close>

datatype TxnState =
    NO_TRANSACTION
  | TRANSACTION_IN_PROGRESS
  | TRANSACTION_COMMITTED
  | TRANSACTION_ABORTED

record ClientSession =
  txn :: TxnState
  txn_orders :: "string \<rightharpoonup> Order"
  txn_stock :: "string \<Rightarrow> nat"

definition logger_log :: "log_entry \<Rightarrow> world \<Rightarrow> world" where
  "logger_log l w = w\<lparr>logs := logs w @ [l]\<rparr>"

definition emit :: "effect \<Rightarrow> world \<Rightarrow> world" where
  "emit e w = w\<lparr>effects := effects w @ [e]\<rparr>"

definition startSession :: "world \<Rightarrow> ClientSession \<times> world" where
  "startSession w =
     (\<lparr>txn = NO_TRANSACTION, txn_orders = orders w, txn_stock = stock w\<rparr>,
      emit SessionStarted w)"

definition startTransaction :: "ClientSession \<Rightarrow> world \<Rightarrow> (error + ClientSession) \<times> world" where
  "startTransaction s w =
     (if txn s = TRANSACTION_IN_PROGRESS
      then (Inl (MongoTransactionError ''Transaction already in progress''), w)
      else (Inr (s\<lparr>txn := TRANSACTION_IN_PROGRESS, txn_orders := orders w, txn_stock := stock w\<rparr>),
            emit TransactionStarted w))"

definition commitTransaction :: "ClientSession \<Rightarrow> world \<Rightarrow> (error + ClientSession) \<times> world" where
  "commitTransaction s w =
     (case txn s of
        NO_TRANSACTION \<Rightarrow> (Inl (MongoTransactionError ''No transaction started''), w)
      | TRANSACTION_IN_PROGRESS \<Rightarrow>
          (Inr (s\<lparr>txn := TRANSACTION_COMMITTED\<rparr>),
           emit TransactionCommitted (w\<lparr>orders := txn_orders s, stock := txn_stock s\<rparr>))
      | TRANSACTION_COMMITTED \<Rightarrow> (Inr s, w)
      | TRANSACTION_ABORTED \<Rightarrow>
          (Inl (MongoTransactionError
             ''Cannot call commitTransaction after calling abortTransaction''), w))"

definition abortTransaction :: "ClientSession \<Rightarrow> world \<Rightarrow> (error + ClientSession) \<times> world" where
  "abortTransaction s w =
     (case txn s of
        NO_TRANSACTION \<Rightarrow> (Inl (MongoTransactionError ''No transaction started''), w)
      | TRANSACTION_IN_PROGRESS \<Rightarrow>
          (Inr (s\<lparr>txn := TRANSACTION_ABORTED, txn_orders := orders w, txn_stock := stock w\<rparr>),
           emit TransactionAborted w)
      | TRANSACTION_COMMITTED \<Rightarrow>
          (Inl (MongoTransactionError
             ''Cannot call abortTransaction after calling commitTransaction''), w)
      | TRANSACTION_ABORTED \<Rightarrow>
          (Inl (MongoTransactionError ''Cannot call abortTransaction twice''), w))"

text \<open>Ending a session aborts a transaction that is still in progress, then releases it.\<close>

definition endSession :: "ClientSession \<Rightarrow> world \<Rightarrow> world" where
  "endSession s w =
     emit SessionEnded (if txn s = TRANSACTION_IN_PROGRESS then emit TransactionAborted w else w)"

text \<open>
  Casting a query value to the ObjectId of the \<open>_id\<close> path: a string of 24 hexadecimal digits
  names an ObjectId, whose string form has its digits in lower case; every other string is
  refused.
\<close>

definition isHexDigit :: "char \<Rightarrow> bool" where
  "isHexDigit c = (c \<in> set ''0123456789abcdefABCDEF'')"

definition hexToLower :: "char \<Rightarrow> char" where
  "hexToLower c = (case map_of (zip ''ABCDEF'' ''abcdef'') c of None \<Rightarrow> c | Some l \<Rightarrow> l)"

definition castObjectId :: "string \<Rightarrow> string option" where
  "castObjectId v =
     (if length v = 24 \<and> list_all isHexDigit v then Some (map hexToLower v) else None)"

text \<open>
  \<open>orderModel.findOneAndUpdate({ _id: orderId }, data, { new: true, session })\<close>: the filter
  is cast first, and a value that is no ObjectId raises CastError before anything is looked
  up. Otherwise, within the session's view, the document with that identity is replaced by
  its update, and the updated document is returned; \<open>null\<close> when there is none.
\<close>

definition findOneAndUpdate ::
  "string \<Rightarrow> (Order \<Rightarrow> Order) \<Rightarrow> ClientSession \<Rightarrow> (error + Order option) \<times> ClientSession" where
  "findOneAndUpdate orderId data s =
     (case castObjectId orderId of
        None \<Rightarrow> (Inl (CastError orderId), s)
      | Some oid \<Rightarrow>
          (case txn_orders s oid of
             None \<Rightarrow> (Inr None, s)
           | Some doc \<Rightarrow>
               (Inr (Some (data doc)), s\<lparr>txn_orders := (txn_orders s)(oid \<mapsto> data doc)\<rparr>)))"

subsection \<open>OrderService\<close>

text \<open>
  Modelled from the spec: the default status of the Order schema
  (\<open>@order/schemas/order.schema\<close> is not among the sources). Section 4.1 of the
  specification: a new order is persisted in status PENDING.
\<close>

definition default_status :: OrderStatus where
  "default_status = PENDING"

text \<open>
  \<open>createOrder\<close>: \<open>new this.orderModel(order)\<close> builds the document from the DTO with the
  identity \<open>new_id\<close> that the ObjectId generator hands out and the defaults of the schema;
  \<open>save\<close> inserts it, and the collection refuses a second document with the same identity.
\<close>

definition createOrder :: "string \<Rightarrow> CreateOrderDto \<Rightarrow> world \<Rightarrow> (error + Order) \<times> world" where
  "createOrder new_id order w =
     (let w1 = logger_log Log_CreatingOrder w;
          newOrder = \<lparr>order_id = new_id, items = dto_items order,
                      amount = dto_amount order, status = default_status\<rparr>
      in if orders w1 new_id \<noteq> None then (Inl (DuplicateKeyError new_id), w1)
         else (Inr newOrder,
               logger_log (Log_OrderCreated new_id)
                 (emit (OrderSaved new_id) (w1\<lparr>orders := (orders w1)(new_id \<mapsto> newOrder)\<rparr>))))"

definition createPaymentIntent ::
  "deps \<Rightarrow> nat \<Rightarrow> (string \<times> string) list \<Rightarrow> string \<Rightarrow> world \<Rightarrow> (error + PaymentIntent) \<times> world" where
  "createPaymentIntent d a metadata customer w =
     (stripeService d a metadata customer, emit (PaymentIntentRequested a metadata customer) w)"

definition placeOrder ::
  "deps \<Rightarrow> string \<Rightarrow> CreateOrderDto \<Rightarrow> string \<Rightarrow> world \<Rightarrow> (error + string) \<times> world" where
  "placeOrder d new_id order stripeCustomerId w =
     (let w0 = logger_log (Log_PlacingOrder stripeCustomerId (dto_amount order)) w
      in case createOrder new_id order w0 of
           (Inl e, w1) \<Rightarrow> (Inl e, w1)
         | (Inr newOrder, w1) \<Rightarrow>
             (case createPaymentIntent d (dto_amount order)
                     [(''order_id'', order_id newOrder)] stripeCustomerId w1 of
                (Inl e, w2) \<Rightarrow> (Inl e, w2)
              | (Inr paymentIntent, w2) \<Rightarrow>
                  (Inr (client_secret paymentIntent),
                   logger_log (Log_OrderPlaced stripeCustomerId) w2)))"

definition updateOrder ::
  "string \<Rightarrow> (Order \<Rightarrow> Order) \<Rightarrow> ClientSession \<Rightarrow> world \<Rightarrow> (error + Order) \<times> ClientSession \<times> world" where
  "updateOrder orderId data s w =
     (let w1 = logger_log (Log_UpdatingOrder orderId) w
      in case findOneAndUpdate orderId data s of
           (Inl e, s1) \<Rightarrow> (Inl e, s1, w1)
         | (Inr None, s1) \<Rightarrow>
             (Inl (NotFoundException (''Order with ID '' @ orderId @ '' not found'')), s1, w1)
         | (Inr (Some order), s1) \<Rightarrow>
             (Inr order, s1, logger_log (Log_OrderUpdated orderId) w1))"

definition updateInventory ::
  "deps \<Rightarrow> LineItem list \<Rightarrow> ClientSession \<Rightarrow> world \<Rightarrow> (error + unit) \<times> ClientSession \<times> world" where
  "updateInventory d its s w =
     (let w1 = logger_log Log_UpdatingInventory w
      in case inventoryService d its (txn_stock s) of
           (None, st) \<Rightarrow> (Inr (), s\<lparr>txn_stock := st\<rparr>, w1)
         | (Some e, st) \<Rightarrow> (Inl e, s\<lparr>txn_stock := st\<rparr>, w1))"

definition sendOrderConfirmationEmail :: "deps \<Rightarrow> Order \<Rightarrow> world \<Rightarrow> (error + unit) \<times> world" where
  "sendOrderConfirmationEmail d order w =
     (case emailService d order of
        None \<Rightarrow> (Inr (), emit (ConfirmationEmailRequested order) w)
      | Some e \<Rightarrow> (Inl e, emit (ConfirmationEmailRequested order) w))"

text \<open>The \<open>try\<close> block of \<open>processOrder\<close>: the first call that raises ends it.\<close>

definition processOrder_try ::
  "deps \<Rightarrow> string \<Rightarrow> OrderStatus \<Rightarrow> ClientSession \<Rightarrow> world \<Rightarrow> (error + unit) \<times> ClientSession \<times> world" where
  "processOrder_try d orderId st s w =
     (case updateOrder orderId (\<lambda>doc. doc\<lparr>status := st\<rparr>) s w of
        (Inl e, s1, w1) \<Rightarrow> (Inl e, s1, w1)
      | (Inr order, s1, w1) \<Rightarrow>
          (case updateInventory d (items order) s1 w1 of
             (Inl e, s2, w2) \<Rightarrow> (Inl e, s2, w2)
           | (Inr _, s2, w2) \<Rightarrow>
               (case commitTransaction s2 w2 of
                  (Inl e, w3) \<Rightarrow> (Inl e, s2, w3)
                | (Inr s3, w3) \<Rightarrow>
                    (case sendOrderConfirmationEmail d order
                            (logger_log (Log_OrderProcessed orderId) w3) of
                       (Inl e, w4) \<Rightarrow> (Inl e, s3, w4)
                     | (Inr u, w4) \<Rightarrow> (Inr u, s3, w4)))))"

text \<open>
  The \<open>catch\<close> block: abort, log, re-raise. When \<open>abortTransaction\<close> itself raises, its error
  leaves the block instead and the log line is not reached.
\<close>

definition processOrder_catch ::
  "string \<Rightarrow> error \<Rightarrow> ClientSession \<Rightarrow> world \<Rightarrow> (error + unit) \<times> ClientSession \<times> world" where
  "processOrder_catch orderId err s w =
     (case abortTransaction s w of
        (Inl e, w1) \<Rightarrow> (Inl e, s, w1)
      | (Inr s1, w1) \<Rightarrow> (Inl err, s1, logger_log (Error_FailedToProcess orderId err) w1))"

text \<open>
  \<open>processOrder\<close>: the session is started and its transaction begun before the \<open>try\<close>; the
  \<open>finally\<close> block ends the session after the \<open>try\<close> or the \<open>catch\<close> block, however they end.
\<close>

definition processOrder ::
  "deps \<Rightarrow> string \<Rightarrow> OrderStatus \<Rightarrow> world \<Rightarrow> (error + unit) \<times> world" where
  "processOrder d orderId st w =
     (case startSession (logger_log (Log_ProcessingOrder orderId st) w) of
        (s0, w1) \<Rightarrow>
          (case startTransaction s0 w1 of
             (Inl e, w2) \<Rightarrow> (Inl e, w2)
           | (Inr s1, w2) \<Rightarrow>
               (case processOrder_try d orderId st s1 w2 of
                  (Inr u, s2, w3) \<Rightarrow> (Inr u, endSession s2 w3)
                | (Inl err, s2, w3) \<Rightarrow>
                    (case processOrder_catch orderId err s2 w3 of
                       (r, s3, w4) \<Rightarrow> (r, endSession s3 w4)))))"

text \<open>
  Modelled from the spec: \<open>InventoryService.updateInventory\<close> (the \<open>@inventory\<close> module is not
  among the sources). Section 4.4: it applies the decrement of every line item, in order,
  within the transaction it is handed, and signals the first item whose stock is
  insufficient (section 6: \<open>InsufficientStock(productRef)\<close>); the decrements made before that
  item stay in the transaction's view.
\<close>

fun decrementStock :: "LineItem list \<Rightarrow> (string \<Rightarrow> nat) \<Rightarrow> error option \<times> (string \<Rightarrow> nat)" where
  "decrementStock [] st = (None, st)"
| "decrementStock (i # is) st =
     (if st (item_id i) < quantity i then (Some (InsufficientStock (item_id i)), st)
      else decrementStock is (st(item_id i := st (item_id i) - quantity i)))"


text \<open>The effects that a call added to the trace.\<close>

definition new_effects :: "world \<Rightarrow> world \<Rightarrow> effect list" where
  "new_effects w w' = drop (length (effects w)) (effects w')"

definition pending_order :: "string \<Rightarrow> CreateOrderDto \<Rightarrow> Order" where
  "pending_order new_id order =
     \<lparr>order_id = new_id, items = dto_items order, amount = dto_amount order, status = PENDING\<rparr>"

section \<open>The two cart services\<close>

subsection \<open>Carts and the cart collection\<close>

record CreateItemDto =
  dto_id :: string
  dto_quantity :: nat

record UpdateItemDto =
  upd_quantity :: nat

record AddShippingOptionsDto =
  add_shipping :: "string list"

record RemoveShippingOptionDto =
  remove_shipping :: string

record Cart =
  cart_id :: string
  customer :: string
  cart_items :: "CreateItemDto list"
  shipping :: "string list"

text \<open>
  The collection behind \<open>cartModel\<close> is the list of its documents in insertion order, which
  is the order in which \<open>findOne\<close> looks for a match.
\<close>

type_synonym carts = "Cart list"

definition findById :: "string \<Rightarrow> carts \<Rightarrow> Cart option" where
  "findById i cs = find (\<lambda>c. cart_id c = i) cs"

definition findOne_customer :: "string \<Rightarrow> carts \<Rightarrow> Cart option" where
  "findOne_customer userId cs = find (\<lambda>c. customer c = userId) cs"

text \<open>
  \<open>populate('items.id')\<close> pairs the cart with the catalogue document of each of its items
  (\<open>None\<close> where the catalogue has none).
\<close>

definition populate :: "(string \<rightharpoonup> 'i) \<Rightarrow> Cart \<Rightarrow> Cart \<times> 'i option list" where
  "populate catalogue c = (c, map (\<lambda>item. catalogue (dto_id item)) (cart_items c))"

text \<open>\<open>save\<close> on a document that was read from the collection writes it back in place.\<close>

definition save :: "Cart \<Rightarrow> carts \<Rightarrow> (error + Cart) \<times> carts" where
  "save c cs = (Inr c, map (\<lambda>doc. if cart_id doc = cart_id c then c else doc) cs)"

text \<open>\<open>save\<close> on a new document inserts it, unless its identity is taken.\<close>

definition save_new :: "Cart \<Rightarrow> carts \<Rightarrow> (error + Cart) \<times> carts" where
  "save_new c cs =
     (if findById (cart_id c) cs \<noteq> None then (Inl (DuplicateKeyError (cart_id c)), cs)
      else (Inr c, cs @ [c]))"

fun deleteFirst :: "string \<Rightarrow> carts \<Rightarrow> carts" where
  "deleteFirst i [] = []"
| "deleteFirst i (c # cs) = (if cart_id c = i then cs else c # deleteFirst i cs)"

definition findByIdAndDelete :: "string \<Rightarrow> carts \<Rightarrow> Cart option \<times> carts" where
  "findByIdAndDelete i cs = (findById i cs, deleteFirst i cs)"

text \<open>\<open>Array.prototype.findIndex\<close> and \<open>indexOf\<close>, with \<open>None\<close> for \<open>-1\<close>.\<close>

fun findIndex :: "('a \<Rightarrow> bool) \<Rightarrow> 'a list \<Rightarrow> nat option" where
  "findIndex P [] = None"
| "findIndex P (x # xs) = (if P x then Some 0 else map_option Suc (findIndex P xs))"

definition indexOf :: "'a list \<Rightarrow> 'a \<Rightarrow> nat option" where
  "indexOf xs x = findIndex (\<lambda>y. y = x) xs"

text \<open>\<open>xs.splice(k, 1)\<close> for an index \<open>k\<close> of the array.\<close>

definition splice1 :: "nat \<Rightarrow> 'a list \<Rightarrow> 'a list" where
  "splice1 k xs = take k xs @ drop (Suc k) xs"

subsection \<open>The first cart service (method names without Cart)\<close>

definition getById :: "string \<Rightarrow> carts \<Rightarrow> (error + Cart) \<times> carts" where
  "getById i cs =
     (case findById i cs of
        None \<Rightarrow> (Inl (NotFoundException (''Cart with ID '' @ i @ '' not found'')), cs)
      | Some cart \<Rightarrow> (Inr cart, cs))"

definition getWithItemsById ::
  "(string \<rightharpoonup> 'i) \<Rightarrow> string \<Rightarrow> carts \<Rightarrow> (error + Cart \<times> 'i option list) \<times> carts" where
  "getWithItemsById catalogue i cs =
     (case map_option (populate catalogue) (findById i cs) of
        None \<Rightarrow> (Inl (NotFoundException (''Cart with ID '' @ i @ '' not found'')), cs)
      | Some cart \<Rightarrow> (Inr cart, cs))"

definition getWithItemsByUserId ::
  "(string \<rightharpoonup> 'i) \<Rightarrow> string \<Rightarrow> carts \<Rightarrow> (error + Cart \<times> 'i option list) \<times> carts" where
  "getWithItemsByUserId catalogue userId cs =
     (case map_option (populate catalogue) (findOne_customer userId cs) of
        None \<Rightarrow>
          (Inl (NotFoundException (''No carts found for user with id '' @ userId)), cs)
      | Some cart \<Rightarrow> (Inr cart, cs))"

definition getByIdOrThrow :: "string \<Rightarrow> carts \<Rightarrow> (error + Cart) \<times> carts" where
  "getByIdOrThrow i cs =
     (case findById i cs of
        None \<Rightarrow> (Inl (NotFoundException (''Cart with ID '' @ i @ '' not found'')), cs)
      | Some cart \<Rightarrow> (Inr cart, cs))"

text \<open>
  \<open>new this.cartModel({ customer, items: [newItem] })\<close> with the identity \<open>new_id\<close> handed out by
  the ObjectId generator; an array path that is not given starts empty.
\<close>

definition createWithItem ::
  "string \<Rightarrow> string \<Rightarrow> CreateItemDto \<Rightarrow> carts \<Rightarrow> (error + Cart) \<times> carts" where
  "createWithItem new_id userId newItem cs =
     save_new \<lparr>cart_id = new_id, customer = userId, cart_items = [newItem], shipping = []\<rparr> cs"

definition addItemToExisting :: "Cart \<Rightarrow> CreateItemDto \<Rightarrow> carts \<Rightarrow> (error + Cart) \<times> carts" where
  "addItemToExisting existingCart newItem cs =
     (let itemExists = list_ex (\<lambda>item. dto_id item = dto_id newItem) (cart_items existingCart)
      in if \<not> itemExists
         then save (existingCart\<lparr>cart_items := cart_items existingCart @ [newItem]\<rparr>) cs
         else save existingCart cs)"

definition addItem ::
  "string \<Rightarrow> string \<Rightarrow> CreateItemDto \<Rightarrow> carts \<Rightarrow> (error + Cart) \<times> carts" where
  "addItem new_id userId newItem cs =
     (case findOne_customer userId cs of
        None \<Rightarrow> createWithItem new_id userId newItem cs
      | Some existingCart \<Rightarrow> addItemToExisting existingCart newItem cs)"

definition updateItem :: "string \<Rightarrow> CreateItemDto \<Rightarrow> carts \<Rightarrow> (error + Cart) \<times> carts" where
  "updateItem i updateItem' cs =
     (case getByIdOrThrow i cs of
        (Inl e, cs1) \<Rightarrow> (Inl e, cs1)
      | (Inr existingCart, cs1) \<Rightarrow>
          (case findIndex (\<lambda>item. dto_id item = dto_id updateItem') (cart_items existingCart) of
             None \<Rightarrow>
               (Inl (NotFoundException
                  (''Item with ID '' @ dto_id updateItem' @ '' not found in cart'')), cs1)
           | Some itemIndex \<Rightarrow>
               save (existingCart\<lparr>cart_items :=
                       (cart_items existingCart)[itemIndex := updateItem']\<rparr>) cs1))"

definition removeItem :: "string \<Rightarrow> string \<Rightarrow> carts \<Rightarrow> (error + Cart) \<times> carts" where
  "removeItem i itemId cs =
     (case getByIdOrThrow i cs of
        (Inl e, cs1) \<Rightarrow> (Inl e, cs1)
      | (Inr existingCart, cs1) \<Rightarrow>
          (case findIndex (\<lambda>item. dto_id item = itemId) (cart_items existingCart) of
             None \<Rightarrow>
               (Inl (NotFoundException (''Item with ID '' @ i @ '' not found in cart'')), cs1)
           | Some itemIndex \<Rightarrow>
               save (existingCart\<lparr>cart_items :=
                       splice1 itemIndex (cart_items existingCart)\<rparr>) cs1))"

text \<open>
  \<open>find\<close> returns the first matching item of the array itself, so the assignment to its
  \<open>quantity\<close> changes the array at that position.
\<close>

definition updateItemQuantity ::
  "string \<Rightarrow> string \<Rightarrow> UpdateItemDto \<Rightarrow> carts \<Rightarrow> (error + Cart) \<times> carts" where
  "updateItemQuantity i itemId updateItem' cs =
     (case getByIdOrThrow i cs of
        (Inl e, cs1) \<Rightarrow> (Inl e, cs1)
      | (Inr existingCart, cs1) \<Rightarrow>
          (case findIndex (\<lambda>it. dto_id it = itemId) (cart_items existingCart) of
             None \<Rightarrow>
               (Inl (NotFoundException
                  (''Item with ID '' @ itemId @ '' not found in cart'')), cs1)
           | Some k \<Rightarrow>
               save (existingCart\<lparr>cart_items :=
                       (cart_items existingCart)
                         [k := (cart_items existingCart ! k)
                                 \<lparr>dto_quantity := upd_quantity updateItem'\<rparr>]\<rparr>) cs1))"

definition addShippingOption ::
  "string \<Rightarrow> AddShippingOptionsDto \<Rightarrow> carts \<Rightarrow> (error + Cart) \<times> carts" where
  "addShippingOption i shippingOption cs =
     (case getByIdOrThrow i cs of
        (Inl e, cs1) \<Rightarrow> (Inl e, cs1)
      | (Inr cart, cs1) \<Rightarrow>
          (let newShippingOptions =
                 filter (\<lambda>option. option \<notin> set (shipping cart))
                   (add_shipping shippingOption)
           in save (cart\<lparr>shipping := shipping cart @ newShippingOptions\<rparr>) cs1))"

definition removeShippingOption ::
  "string \<Rightarrow> RemoveShippingOptionDto \<Rightarrow> carts \<Rightarrow> (error + Cart) \<times> carts" where
  "removeShippingOption i shippingOption cs =
     (case getByIdOrThrow i cs of
        (Inl e, cs1) \<Rightarrow> (Inl e, cs1)
      | (Inr cart, cs1) \<Rightarrow>
          (case indexOf (shipping cart) (remove_shipping shippingOption) of
             Some index \<Rightarrow> save (cart\<lparr>shipping := splice1 index (shipping cart)\<rparr>) cs1
           | None \<Rightarrow>
               (Inl (NotFoundException
                  (''Shipping option '' @ remove_shipping shippingOption
                     @ '' not found in cart'')), cs1)))"

definition remove_cart :: "string \<Rightarrow> carts \<Rightarrow> (error + string) \<times> carts" where
  "remove_cart i cs =
     (case findByIdAndDelete i cs of
        (None, cs1) \<Rightarrow> (Inl (NotFoundException (''Cart with ID '' @ i @ '' not found'')), cs1)
      | (Some result, cs1) \<Rightarrow> (Inr ''Cart deleted successfully'', cs1))"

subsection \<open>The second cart service (method names with Cart)\<close>

definition getCartById :: "string \<Rightarrow> carts \<Rightarrow> (error + Cart) \<times> carts" where
  "getCartById i cs =
     (case findById i cs of
        None \<Rightarrow> (Inl (NotFoundException (''Cart with ID '' @ i @ '' not found'')), cs)
      | Some cart \<Rightarrow> (Inr cart, cs))"

definition getCartWithItemsById ::
  "(string \<rightharpoonup> 'i) \<Rightarrow> string \<Rightarrow> carts \<Rightarrow> (error + Cart \<times> 'i option list) \<times> carts" where
  "getCartWithItemsById catalogue i cs =
     (case map_option (populate catalogue) (findById i cs) of
        None \<Rightarrow> (Inl (NotFoundException (''Cart with ID '' @ i @ '' not found'')), cs)
      | Some cart \<Rightarrow> (Inr cart, cs))"

definition getWithItemsByUserId_b ::
  "(string \<rightharpoonup> 'i) \<Rightarrow> string \<Rightarrow> carts \<Rightarrow> (error + Cart \<times> 'i option list) \<times> carts" where
  "getWithItemsByUserId_b catalogue userId cs =
     (case map_option (populate catalogue) (findOne_customer userId cs) of
        None \<Rightarrow>
          (Inl (NotFoundException (''No carts found for user with id '' @ userId)), cs)
      | Some cart \<Rightarrow> (Inr cart, cs))"

definition getCartByIdOrThrow :: "string \<Rightarrow> carts \<Rightarrow> (error + Cart) \<times> carts" where
  "getCartByIdOrThrow i cs =
     (case findById i cs of
        None \<Rightarrow> (Inl (NotFoundException (''Cart with ID '' @ i @ '' not found'')), cs)
      | Some cart \<Rightarrow> (Inr cart, cs))"

text \<open>
  \<open>new this.cartModel({ customer, items: [newItem] })\<close> with the identity \<open>new_id\<close> handed out by
  the ObjectId generator; an array path that is not given starts empty.
\<close>

definition createCartWithItem ::
  "string \<Rightarrow> string \<Rightarrow> CreateItemDto \<Rightarrow> carts \<Rightarrow> (error + Cart) \<times> carts" where
  "createCartWithItem new_id userId newItem cs =
     save_new \<lparr>cart_id = new_id, customer = userId, cart_items = [newItem], shipping = []\<rparr> cs"

definition addItemToExistingCart :: "Cart \<Rightarrow> CreateItemDto \<Rightarrow> carts \<Rightarrow> (error + Cart) \<times> carts" where
  "addItemToExistingCart existingCart newItem cs =
     (let itemExists = list_ex (\<lambda>item. dto_id item = dto_id newItem) (cart_items existingCart)
      in if \<not> itemExists
         then save (existingCart\<lparr>cart_items := cart_items existingCart @ [newItem]\<rparr>) cs
         else save existingCart cs)"

definition addItemToCart ::
  "string \<Rightarrow> string \<Rightarrow> CreateItemDto \<Rightarrow> carts \<Rightarrow> (error + Cart) \<times> carts" where
  "addItemToCart new_id userId newItem cs =
     (case findOne_customer userId cs of
        None \<Rightarrow> createCartWithItem new_id userId newItem cs
      | Some existingCart \<Rightarrow> addItemToExistingCart existingCart newItem cs)"

definition updateItemInCart :: "string \<Rightarrow> CreateItemDto \<Rightarrow> carts \<Rightarrow> (error + Cart) \<times> carts" where
  "updateItemInCart i updateItem' cs =
     (case getCartByIdOrThrow i cs of
        (Inl e, cs1) \<Rightarrow> (Inl e, cs1)
      | (Inr existingCart, cs1) \<Rightarrow>
          (case findIndex (\<lambda>item. dto_id item = dto_id updateItem') (cart_items existingCart) of
             None \<Rightarrow>
               (Inl (NotFoundException
                  (''Item with ID '' @ dto_id updateItem' @ '' not found in cart'')), cs1)
           | Some itemIndex \<Rightarrow>
               save (existingCart\<lparr>cart_items :=
                       (cart_items existingCart)[itemIndex := updateItem']\<rparr>) cs1))"

definition removeItemFromCart :: "string \<Rightarrow> string \<Rightarrow> carts \<Rightarrow> (error + Cart) \<times> carts" where
  "removeItemFromCart i itemId cs =
     (case getCartByIdOrThrow i cs of
        (Inl e, cs1) \<Rightarrow> (Inl e, cs1)
      | (Inr existingCart, cs1) \<Rightarrow>
          (case findIndex (\<lambda>item. dto_id item = itemId) (cart_items existingCart) of
             None \<Rightarrow>
               (Inl (NotFoundException (''Item with ID '' @ i @ '' not found in cart'')), cs1)
           | Some itemIndex \<Rightarrow>
               save (existingCart\<lparr>cart_items :=
                       splice1 itemIndex (cart_items existingCart)\<rparr>) cs1))"

text \<open>
  \<open>find\<close> returns the first matching item of the array itself, so the assignment to its
  \<open>quantity\<close> changes the array at that position.
\<close>

definition updateItemQuantityInCart ::
  "string \<Rightarrow> string \<Rightarrow> UpdateItemDto \<Rightarrow> carts \<Rightarrow> (error + Cart) \<times> carts" where
  "updateItemQuantityInCart i itemId updateItem' cs =
     (case getCartByIdOrThrow i cs of
        (Inl e, cs1) \<Rightarrow> (Inl e, cs1)
      | (Inr existingCart, cs1) \<Rightarrow>
          (case findIndex (\<lambda>it. dto_id it = itemId) (cart_items existingCart) of
             None \<Rightarrow>
               (Inl (NotFoundException
                  (''Item with ID '' @ itemId @ '' not found in cart'')), cs1)
           | Some k \<Rightarrow>
               save (existingCart\<lparr>cart_items :=
                       (cart_items existingCart)
                         [k := (cart_items existingCart ! k)
                                 \<lparr>dto_quantity := upd_quantity updateItem'\<rparr>]\<rparr>) cs1))"

definition addShippingToCart ::
  "string \<Rightarrow> AddShippingOptionsDto \<Rightarrow> carts \<Rightarrow> (error + Cart) \<times> carts" where
  "addShippingToCart i shippingOption cs =
     (case getCartByIdOrThrow i cs of
        (Inl e, cs1) \<Rightarrow> (Inl e, cs1)
      | (Inr cart, cs1) \<Rightarrow>
          (let newShippingOptions =
                 filter (\<lambda>option. option \<notin> set (shipping cart))
                   (add_shipping shippingOption)
           in save (cart\<lparr>shipping := shipping cart @ newShippingOptions\<rparr>) cs1))"

definition removeShippingInCart ::
  "string \<Rightarrow> RemoveShippingOptionDto \<Rightarrow> carts \<Rightarrow> (error + Cart) \<times> carts" where
  "removeShippingInCart i shippingOption cs =
     (case getCartByIdOrThrow i cs of
        (Inl e, cs1) \<Rightarrow> (Inl e, cs1)
      | (Inr cart, cs1) \<Rightarrow>
          (case indexOf (shipping cart) (remove_shipping shippingOption) of
             Some index \<Rightarrow> save (cart\<lparr>shipping := splice1 index (shipping cart)\<rparr>) cs1
           | None \<Rightarrow>
               (Inl (NotFoundException
                  (''Shipping option '' @ remove_shipping shippingOption
                     @ '' not found in cart'')), cs1)))"

definition removeCart :: "string \<Rightarrow> carts \<Rightarrow> (error + string) \<times> carts" where
  "removeCart i cs =
     (case findByIdAndDelete i cs of
        (None, cs1) \<Rightarrow> (Inl (NotFoundException (''Cart with ID '' @ i @ '' not found'')), cs1)
      | (Some result, cs1) \<Rightarrow> (Inr ''Cart deleted successfully'', cs1))"

section \<open>A small shop, for evaluation\<close>

definition id_o1 :: string where "id_o1 = ''64f1a2b3c4d5e6f708192a01''"

definition id_o2 :: string where "id_o2 = ''64f1a2b3c4d5e6f708192a02''"

definition id_o3 :: string where "id_o3 = ''64f1a2b3c4d5e6f708192a03''"

definition id_o4 :: string where "id_o4 = ''64f1a2b3c4d5e6f708192a04''"

definition id_o9 :: string where "id_o9 = ''64f1a2b3c4d5e6f708192a09''"

definition order_o1 :: Order where
  "order_o1 = \<lparr>order_id = id_o1,
     items = [\<lparr>item_id = ''B'', quantity = 1\<rparr>, \<lparr>item_id = ''A'', quantity = 2\<rparr>],
     amount = 30, status = PENDING\<rparr>"

definition order_o2 :: Order where
  "order_o2 = \<lparr>order_id = id_o2, items = [\<lparr>item_id = ''A'', quantity = 1\<rparr>],
     amount = 10, status = PENDING\<rparr>"

definition order_o3 :: Order where
  "order_o3 = \<lparr>order_id = id_o3, items = [\<lparr>item_id = ''A'', quantity = 1\<rparr>],
     amount = 10, status = PAID\<rparr>"

definition shop :: world where
  "shop = \<lparr>orders = [id_o1 \<mapsto> order_o1, id_o2 \<mapsto> order_o2, id_o3 \<mapsto> order_o3],
     stock = (\<lambda>_. 0)(''A'' := 1, ''B'' := 1), logs = [], effects = []\<rparr>"

text \<open>The same shop with two \<open>A\<close> in stock.\<close>

definition stocked_shop :: world where
  "stocked_shop = shop\<lparr>stock := (stock shop)(''A'' := 2)\<rparr>"

definition new_order :: CreateOrderDto where
  "new_order = \<lparr>dto_items = [\<lparr>item_id = ''A'', quantity = 1\<rparr>], dto_amount = 10\<rparr>"

definition shop_deps :: deps where
  "shop_deps = \<lparr>inventoryService = decrementStock, emailService = (\<lambda>_. None),
     stripeService = (\<lambda>a m c. Inr \<lparr>intent_id = ''pi_1'', client_secret = ''pi_1_secret''\<rparr>)\<rparr>"

definition failing_notifier :: deps where
  "failing_notifier = shop_deps\<lparr>emailService := (\<lambda>_. Some (ExternalError ''smtp''))\<rparr>"

definition failing_gateway :: deps where
  "failing_gateway = shop_deps\<lparr>stripeService := (\<lambda>a m c. Inl (ExternalError ''stripe''))\<rparr>"

definition some_carts :: carts where
  "some_carts = [\<lparr>cart_id = ''c1'', customer = ''u1'',
      cart_items = [\<lparr>dto_id = ''A'', dto_quantity = 1\<rparr>], shipping = [''post'']\<rparr>]"

section \<open>What the order service does, case by case\<close>

lemmas order_defs =
  processOrder_def processOrder_try_def processOrder_catch_def updateOrder_def
  updateInventory_def sendOrderConfirmationEmail_def findOneAndUpdate_def
  startSession_def startTransaction_def commitTransaction_def abortTransaction_def
  endSession_def logger_log_def emit_def

lemmas place_defs =
  placeOrder_def createOrder_def createPaymentIntent_def default_status_def logger_log_def
  emit_def Let_def

lemmas id_defs = id_o1_def id_o2_def id_o3_def id_o4_def id_o9_def

lemmas shop_defs =
  shop_def stocked_shop_def shop_deps_def failing_notifier_def failing_gateway_def
  order_o1_def order_o2_def order_o3_def new_order_def id_defs

lemmas cast_defs = castObjectId_def isHexDigit_def hexToLower_def

text \<open>The identities of the shop are ObjectIds in their string form; \<open>o9\<close> is none.\<close>

lemma cast_shop_ids:
  "castObjectId id_o1 = Some id_o1" "castObjectId id_o2 = Some id_o2"
  "castObjectId id_o3 = Some id_o3" "castObjectId id_o9 = Some id_o9"
  by (simp_all add: cast_defs id_defs)

lemma cast_malformed: "castObjectId ''o9'' = None"
  by (simp add: castObjectId_def)

text \<open>
  \<open>processOrder\<close> has four outcomes before the notifier is called: the identity is no
  ObjectId, the order is missing, the inventory adjuster raises, or the transaction commits.
\<close>

lemma processOrder_cast_error:
  assumes "castObjectId orderId = None"
  shows "processOrder d orderId st w =
     (Inl (CastError orderId),
      w\<lparr>logs := logs w @ [Log_ProcessingOrder orderId st, Log_UpdatingOrder orderId,
            Error_FailedToProcess orderId (CastError orderId)],
        effects := effects w @ [SessionStarted, TransactionStarted, TransactionAborted, SessionEnded]\<rparr>)"
  using assms by (simp add: order_defs)

lemma processOrder_not_found:
  assumes "castObjectId orderId = Some oid" and "orders w oid = None"
  shows "processOrder d orderId st w =
     (Inl (NotFoundException (''Order with ID '' @ orderId @ '' not found'')),
      w\<lparr>logs := logs w @ [Log_ProcessingOrder orderId st, Log_UpdatingOrder orderId,
            Error_FailedToProcess orderId
              (NotFoundException (''Order with ID '' @ orderId @ '' not found''))],
        effects := effects w @ [SessionStarted, TransactionStarted, TransactionAborted, SessionEnded]\<rparr>)"
  using assms by (simp add: order_defs)

lemma processOrder_adjuster_failed:
  assumes "castObjectId orderId = Some oid" and "orders w oid = Some doc"
    and "inventoryService d (items doc) (stock w) = (Some e, st')"
  shows "processOrder d orderId st w =
     (Inl e,
      w\<lparr>logs := logs w @ [Log_ProcessingOrder orderId st, Log_UpdatingOrder orderId,
            Log_OrderUpdated orderId, Log_UpdatingInventory, Error_FailedToProcess orderId e],
        effects := effects w @ [SessionStarted, TransactionStarted, TransactionAborted, SessionEnded]\<rparr>)"
  using assms by (simp add: order_defs)

lemma processOrder_committed:
  assumes "castObjectId orderId = Some oid" and "orders w oid = Some doc"
    and "inventoryService d (items doc) (stock w) = (None, st')"
  shows "processOrder d orderId st w =
     ((case emailService d (doc\<lparr>status := st\<rparr>) of
         None \<Rightarrow> Inr ()
       | Some e \<Rightarrow> Inl (MongoTransactionError
             ''Cannot call abortTransaction after calling commitTransaction'')),
      w\<lparr>orders := (orders w)(oid \<mapsto> doc\<lparr>status := st\<rparr>), stock := st',
        logs := logs w @ [Log_ProcessingOrder orderId st, Log_UpdatingOrder orderId,
            Log_OrderUpdated orderId, Log_UpdatingInventory, Log_OrderProcessed orderId],
        effects := effects w @ [SessionStarted, TransactionStarted, TransactionCommitted,
            ConfirmationEmailRequested (doc\<lparr>status := st\<rparr>), SessionEnded]\<rparr>)"
  using assms by (simp add: order_defs split: option.splits)

text \<open>\<open>placeOrder\<close>: the insert is refused, or the order is saved and the gateway is asked.\<close>

lemma placeOrder_duplicate:
  assumes "orders w nid = Some x"
  shows "placeOrder d nid dto cust w =
     (Inl (DuplicateKeyError nid),
      w\<lparr>logs := logs w @ [Log_PlacingOrder cust (dto_amount dto), Log_CreatingOrder]\<rparr>)"
  using assms by (simp add: place_defs)

lemma placeOrder_fresh:
  assumes "orders w nid = None"
  shows "placeOrder d nid dto cust w =
     (case stripeService d (dto_amount dto) [(''order_id'', nid)] cust of
        Inl e \<Rightarrow> (Inl e,
           w\<lparr>orders := (orders w)(nid \<mapsto> pending_order nid dto),
             logs := logs w @ [Log_PlacingOrder cust (dto_amount dto), Log_CreatingOrder,
                 Log_OrderCreated nid],
             effects := effects w @ [OrderSaved nid,
                 PaymentIntentRequested (dto_amount dto) [(''order_id'', nid)] cust]\<rparr>)
      | Inr paymentIntent \<Rightarrow> (Inr (client_secret paymentIntent),
           w\<lparr>orders := (orders w)(nid \<mapsto> pending_order nid dto),
             logs := logs w @ [Log_PlacingOrder cust (dto_amount dto), Log_CreatingOrder,
                 Log_OrderCreated nid, Log_OrderPlaced cust],
             effects := effects w @ [OrderSaved nid,
                 PaymentIntentRequested (dto_amount dto) [(''order_id'', nid)] cust]\<rparr>))"
  using assms by (simp add: place_defs pending_order_def split: sum.splits)

text \<open>
  The adjuster modelled from the specification fails exactly when some line item asks for
  more than the stock holds (for line items on distinct products), and otherwise decrements
  each product by the quantity ordered.
\<close>

lemma decrementStock_untouched:
  "p \<notin> item_id ` set its \<Longrightarrow> snd (decrementStock its st) p = st p"
  by (induction its arbitrary: st) auto

lemma decrementStock_fails_iff:
  "distinct (map item_id its) \<Longrightarrow>
   (fst (decrementStock its st) \<noteq> None) = (\<exists>i\<in>set its. st (item_id i) < quantity i)"
proof (induction its arbitrary: st)
  case Nil
  then show ?case by simp
next
  case (Cons a its)
  from Cons.prems(1) have fresh: "\<forall>i\<in>set its. item_id i \<noteq> item_id a"
    by (auto simp: image_iff)
  from Cons show ?case
    by (auto simp: fresh)
qed

lemma decrementStock_succeeds:
  "distinct (map item_id its) \<Longrightarrow> fst (decrementStock its st) = None \<Longrightarrow> i \<in> set its \<Longrightarrow>
   snd (decrementStock its st) (item_id i) = st (item_id i) - quantity i"
proof (induction its arbitrary: st)
  case Nil
  then show ?case by simp
next
  case (Cons a its)
  from Cons.prems(1) have fresh: "\<forall>j\<in>set its. item_id j \<noteq> item_id a"
    by (auto simp: image_iff)
  from Cons show ?case
    by (auto simp: fresh decrementStock_untouched split: if_splits)
qed


section \<open>The claims\<close>

text \<open>
  Claim C1. \<open>processOrder\<close> is atomic with respect to the status write and the inventory
  decrements: for every order of the collection (named by the ObjectId string that the
  given identity is cast to) and every target status, when the inventory adjuster fails on a
  line item, the call raises that failure, the transaction is aborted and neither the
  orders (so the order's status) nor the stock differ from their values before the call.
\<close>

theorem processOrder_atomic:
  assumes "castObjectId orderId = Some oid"
    and "orders w oid = Some doc"
    and "fst (inventoryService d (items doc) (stock w)) = Some e"
    and "processOrder d orderId st w = (r, w')"
  shows "r = Inl e \<and> orders w' = orders w \<and> stock w' = stock w
    \<and> new_effects w w' = [SessionStarted, TransactionStarted, TransactionAborted, SessionEnded]"
proof -
  obtain st' where "inventoryService d (items doc) (stock w) = (Some e, st')"
    using assms(3) by (cases "inventoryService d (items doc) (stock w)") simp
  from processOrder_adjuster_failed [OF assms(1,2) this, of st] assms(4)
  show ?thesis by (auto simp: new_effects_def)
qed

text \<open>
  At the shop: order \<open>o1\<close> asks for one \<open>B\<close> and two \<open>A\<close> with one of each in stock. The
  adjuster decrements \<open>B\<close> in the transaction's view and fails on \<open>A\<close>; after the call
  both stocks and the order are as before.
\<close>

theorem processOrder_atomic_witness:
  "castObjectId id_o1 = Some id_o1
   \<and> orders shop id_o1 = Some order_o1
   \<and> inventoryService shop_deps (items order_o1) (stock shop)
       = (Some (InsufficientStock ''A''), (stock shop)(''B'' := 0))
   \<and> fst (processOrder shop_deps id_o1 PAID shop) = Inl (InsufficientStock ''A'')
   \<and> orders (snd (processOrder shop_deps id_o1 PAID shop)) id_o1 = Some order_o1
   \<and> stock (snd (processOrder shop_deps id_o1 PAID shop)) ''B'' = 1
   \<and> stock (snd (processOrder shop_deps id_o1 PAID shop)) ''A'' = 1"
proof -
  have h1: "orders shop id_o1 = Some order_o1"
    by (simp add: shop_defs)
  have h2: "inventoryService shop_deps (items order_o1) (stock shop)
              = (Some (InsufficientStock ''A''), (stock shop)(''B'' := 0))"
    by (simp add: shop_defs)
  then have h3: "fst (inventoryService shop_deps (items order_o1) (stock shop))
              = Some (InsufficientStock ''A'')"
    by simp
  have "stock shop ''B'' = 1" "stock shop ''A'' = 1"
    by (simp_all add: shop_defs)
  with processOrder_atomic [where d = shop_deps and st = PAID,
      OF cast_shop_ids(1) h1 h3 surjective_pairing] h1 h2 cast_shop_ids(1)
  show ?thesis by simp
qed

text \<open>
  Claim C2, as the specification states it, says that a failure of the notifier after the
  commit is not propagated to the caller. The call to the notifier is inside the \<open>try\<close>
  block, so its failure reaches the \<open>catch\<close> block and \<open>processOrder\<close> ends with an error:
  at the shop, with a notifier that fails, the transaction of order \<open>o2\<close> commits and the
  call returns an error.
\<close>

theorem notifier_failure_propagates:
  "emailService failing_notifier (order_o2\<lparr>status := PAID\<rparr>) = Some (ExternalError ''smtp'')
   \<and> TransactionCommitted \<in> set (effects (snd (processOrder failing_notifier id_o2 PAID shop)))
   \<and> isl (fst (processOrder failing_notifier id_o2 PAID shop))"
proof -
  have h1: "orders shop id_o2 = Some order_o2"
    by (simp add: shop_defs)
  have h2: "inventoryService failing_notifier (items order_o2) (stock shop)
              = (None, (stock shop)(''A'' := 0))"
    by (simp add: shop_defs)
  have h3: "emailService failing_notifier (order_o2\<lparr>status := PAID\<rparr>) = Some (ExternalError ''smtp'')"
    by (simp add: shop_defs)
  from processOrder_committed [OF cast_shop_ids(2) h1 h2, of PAID] h3
  show ?thesis by (simp add: shop_def)
qed

text \<open>
  Claim C2, amended. For every order of the collection whose \<open>processOrder\<close> transaction
  commits, a failure of the notifier that follows does not reverse the committed
  transaction: the order's status stays at the target value and the inventory decrements
  remain applied, and no abort takes place. The failure is not swallowed: the call ends by
  raising an error to the caller.
\<close>

theorem processOrder_notifier_failure:
  assumes "castObjectId orderId = Some oid"
    and "orders w oid = Some doc"
    and "inventoryService d (items doc) (stock w) = (None, st')"
    and "emailService d (doc\<lparr>status := st\<rparr>) = Some e"
    and "processOrder d orderId st w = (r, w')"
  shows "isl r \<and> orders w' = (orders w)(oid \<mapsto> doc\<lparr>status := st\<rparr>) \<and> stock w' = st'
    \<and> TransactionCommitted \<in> set (new_effects w w') \<and> TransactionAborted \<notin> set (new_effects w w')"
  using processOrder_committed [OF assms(1,2,3), of st] assms(4,5)
  by (auto simp: new_effects_def)

theorem processOrder_notifier_failure_witness:
  "castObjectId id_o2 = Some id_o2
   \<and> orders shop id_o2 = Some order_o2
   \<and> emailService failing_notifier (order_o2\<lparr>status := PAID\<rparr>) = Some (ExternalError ''smtp'')
   \<and> isl (fst (processOrder failing_notifier id_o2 PAID shop))
   \<and> map_option status (orders (snd (processOrder failing_notifier id_o2 PAID shop)) id_o2) = Some PAID
   \<and> stock (snd (processOrder failing_notifier id_o2 PAID shop)) ''A'' = 0"
proof -
  have h1: "orders shop id_o2 = Some order_o2"
    by (simp add: shop_defs)
  have h2: "inventoryService failing_notifier (items order_o2) (stock shop)
              = (None, (stock shop)(''A'' := 0))"
    by (simp add: shop_defs)
  have h3: "emailService failing_notifier (order_o2\<lparr>status := PAID\<rparr>) = Some (ExternalError ''smtp'')"
    by (simp add: shop_defs)
  from processOrder_notifier_failure [where d = failing_notifier and st = PAID,
      OF cast_shop_ids(2) h1 h2 h3 surjective_pairing] h1 h3 cast_shop_ids(2)
  show ?thesis by simp
qed

text \<open>
  Claim C3, as the specification states it, says that no call to \<open>processOrder\<close> changes the
  status of an order that is PAID, FAILED or CANCELLED. \<open>updateOrder\<close> writes the target status
  whatever the current one is: at the shop, order \<open>o3\<close> is PAID and a call with target
  CANCELLED succeeds and leaves it CANCELLED.
\<close>

theorem terminal_status_overwritten:
  "map_option status (orders shop id_o3) = Some PAID
   \<and> fst (processOrder shop_deps id_o3 CANCELLED shop) = Inr ()
   \<and> map_option status (orders (snd (processOrder shop_deps id_o3 CANCELLED shop)) id_o3)
       = Some CANCELLED"
proof -
  have h1: "orders shop id_o3 = Some order_o3"
    by (simp add: shop_defs)
  have h2: "inventoryService shop_deps (items order_o3) (stock shop)
              = (None, (stock shop)(''A'' := 0))"
    by (simp add: shop_defs)
  have h3: "emailService shop_deps (order_o3\<lparr>status := CANCELLED\<rparr>) = None"
    by (simp add: shop_defs)
  from processOrder_committed [OF cast_shop_ids(3) h1 h2, of CANCELLED] h1 h3
  show ?thesis by (simp add: order_o3_def)
qed

text \<open>
  Claim C3, amended. \<open>processOrder\<close> does not look at the current status: for every order of
  the collection, in whatever status (terminal or not) and for whatever target, the call
  leaves the order with the target status when the inventory adjuster succeeds (the
  transaction commits), and leaves the order as it was when the adjuster fails (the
  transaction aborts).
\<close>

theorem processOrder_status_outcome:
  assumes "castObjectId orderId = Some oid"
    and "orders w oid = Some doc"
    and "processOrder d orderId st w = (r, w')"
  shows "orders w' oid =
     Some (if fst (inventoryService d (items doc) (stock w)) = None then doc\<lparr>status := st\<rparr> else doc)"
proof (cases "inventoryService d (items doc) (stock w)")
  case (Pair failed st')
  show ?thesis
  proof (cases failed)
    case None
    with Pair processOrder_committed [OF assms(1,2), of d st' st] assms(3)
    show ?thesis by auto
  next
    case (Some e)
    with Pair processOrder_adjuster_failed [OF assms(1,2), of d e st' st] assms(2,3)
    show ?thesis by auto
  qed
qed

theorem processOrder_status_outcome_witness:
  "castObjectId id_o3 = Some id_o3
   \<and> orders shop id_o3 = Some order_o3
   \<and> orders (snd (processOrder shop_deps id_o3 CANCELLED shop)) id_o3
       = Some (order_o3\<lparr>status := CANCELLED\<rparr>)"
proof -
  have h1: "orders shop id_o3 = Some order_o3"
    by (simp add: shop_defs)
  have h2: "fst (inventoryService shop_deps (items order_o3) (stock shop)) = None"
    by (simp add: shop_defs)
  from processOrder_status_outcome [where d = shop_deps and st = CANCELLED,
      OF cast_shop_ids(3) h1 surjective_pairing] h1 h2 cast_shop_ids(3)
  show ?thesis by simp
qed

text \<open>
  Claim C4. \<open>placeOrder\<close> persists the new order in status PENDING before any call to the
  payment gateway: every request for a payment intent that a call makes carries the new
  order's identity as its metadata, comes after the save of that order, and the order is
  then in the store in status PENDING; whenever the call returns a client secret, the
  request was made and the order is in the store in status PENDING; and whenever the
  identity handed out is free, the order is in the store in status PENDING after the call.
\<close>

theorem placeOrder_persists_first:
  assumes "placeOrder d new_id order stripeCustomerId w = (r, w')"
  shows "(\<forall>k a m c. k < length (new_effects w w')
            \<and> new_effects w w' ! k = PaymentIntentRequested a m c \<longrightarrow>
          m = [(''order_id'', new_id)]
          \<and> (\<exists>j<k. new_effects w w' ! j = OrderSaved new_id)
          \<and> orders w' new_id = Some (pending_order new_id order))
    \<and> (\<forall>secret. r = Inr secret \<longrightarrow>
          PaymentIntentRequested (dto_amount order) [(''order_id'', new_id)] stripeCustomerId
            \<in> set (new_effects w w')
          \<and> orders w' new_id = Some (pending_order new_id order))
    \<and> (orders w new_id = None \<longrightarrow> orders w' new_id = Some (pending_order new_id order))"
proof (cases "orders w new_id")
  case None
  from placeOrder_fresh [OF None, of d order stripeCustomerId] assms
  show ?thesis by (auto simp: new_effects_def less_Suc_eq nth_Cons' split: sum.splits)
next
  case (Some x)
  from placeOrder_duplicate [OF Some, of d order stripeCustomerId] assms Some
  show ?thesis by (auto simp: new_effects_def)
qed

theorem placeOrder_persists_first_witness:
  "new_effects shop (snd (placeOrder shop_deps id_o4 new_order ''cus_1'' shop)) ! 1
     = PaymentIntentRequested 10 [(''order_id'', id_o4)] ''cus_1''
   \<and> new_effects shop (snd (placeOrder shop_deps id_o4 new_order ''cus_1'' shop)) ! 0
     = OrderSaved id_o4
   \<and> orders (snd (placeOrder shop_deps id_o4 new_order ''cus_1'' shop)) id_o4
     = Some (pending_order id_o4 new_order)"
proof -
  have h1: "orders shop id_o4 = None"
    by (simp add: shop_defs)
  have h2: "stripeService shop_deps (dto_amount new_order) [(''order_id'', id_o4)] ''cus_1''
              = Inr \<lparr>intent_id = ''pi_1'', client_secret = ''pi_1_secret''\<rparr>"
    by (simp add: shop_deps_def)
  have e: "new_effects shop (snd (placeOrder shop_deps id_o4 new_order ''cus_1'' shop))
             = [OrderSaved id_o4, PaymentIntentRequested 10 [(''order_id'', id_o4)] ''cus_1'']"
    using placeOrder_fresh [OF h1, of shop_deps new_order "''cus_1''"] h2
    by (simp add: new_effects_def new_order_def)
  from placeOrder_persists_first [where d = shop_deps and new_id = id_o4 and order = new_order
      and stripeCustomerId = "''cus_1''" and w = shop, OF surjective_pairing]
  have "\<forall>k a m c. k < length (new_effects shop (snd (placeOrder shop_deps id_o4 new_order ''cus_1'' shop)))
            \<and> new_effects shop (snd (placeOrder shop_deps id_o4 new_order ''cus_1'' shop)) ! k
                = PaymentIntentRequested a m c \<longrightarrow>
          orders (snd (placeOrder shop_deps id_o4 new_order ''cus_1'' shop)) id_o4
            = Some (pending_order id_o4 new_order)"
    by blast
  from this [rule_format, of 1 10 "[(''order_id'', id_o4)]" "''cus_1''"] e
  show ?thesis by simp
qed

text \<open>
  Claim C5. When the creation of the payment intent fails after \<open>placeOrder\<close> has saved the
  order, the gateway's error is what the caller gets, and the store is the one before the
  call with the new order added in status PENDING: the order is not rolled back and nothing
  else changes.
\<close>

theorem placeOrder_gateway_failure:
  assumes "orders w new_id = None"
    and "stripeService d (dto_amount order) [(''order_id'', new_id)] stripeCustomerId = Inl e"
    and "placeOrder d new_id order stripeCustomerId w = (r, w')"
  shows "r = Inl e \<and> orders w' = (orders w)(new_id \<mapsto> pending_order new_id order)
    \<and> stock w' = stock w"
  using placeOrder_fresh [OF assms(1), of d order stripeCustomerId] assms(2,3) by auto

theorem placeOrder_gateway_failure_witness:
  "orders shop id_o4 = None
   \<and> fst (placeOrder failing_gateway id_o4 new_order ''cus_1'' shop) = Inl (ExternalError ''stripe'')
   \<and> map_option status (orders (snd (placeOrder failing_gateway id_o4 new_order ''cus_1'' shop)) id_o4)
       = Some PENDING"
proof -
  have h1: "orders shop id_o4 = None"
    by (simp add: shop_defs)
  have h2: "stripeService failing_gateway (dto_amount new_order) [(''order_id'', id_o4)] ''cus_1''
              = Inl (ExternalError ''stripe'')"
    by (simp add: failing_gateway_def)
  from placeOrder_gateway_failure [where d = failing_gateway, OF h1 h2 surjective_pairing] h1
  show ?thesis by (simp add: pending_order_def)
qed

text \<open>
  Claim C6, as the specification states it, says that \<open>processOrder\<close> fails with NotFound
  exactly when no order with the given identity exists. The lookup casts the identity first:
  at the shop there is no order \<open>o9\<close>, and the call for \<open>o9\<close>, which is no ObjectId, fails
  with CastError.
\<close>

theorem missing_order_cast_error:
  "orders shop ''o9'' = None
   \<and> fst (processOrder shop_deps ''o9'' PAID shop) = Inl (CastError ''o9'')
   \<and> fst (processOrder shop_deps ''o9'' PAID shop)
       \<noteq> Inl (NotFoundException ''Order with ID o9 not found'')"
proof -
  have "orders shop ''o9'' = None"
    by (simp add: shop_defs)
  with processOrder_cast_error [OF cast_malformed, of shop_deps PAID shop]
  show ?thesis by simp
qed

text \<open>
  Claim C6, amended. When the given identity is the string form of an ObjectId and no order
  with that identity exists, \<open>processOrder\<close> fails with the NotFound of \<open>updateOrder\<close>; when
  the given identity is no ObjectId, it fails with CastError. In both cases the
  transaction is aborted, the error is re-raised to the caller, and neither the order store
  nor the inventory is modified. When the order exists, \<open>processOrder\<close> fails with NotFound
  only if the inventory adjuster raises that very error.
\<close>

theorem processOrder_missing_order:
  assumes "processOrder d orderId st w = (r, w')"
  shows "(castObjectId orderId = None \<longrightarrow>
            r = Inl (CastError orderId)
            \<and> orders w' = orders w \<and> stock w' = stock w
            \<and> new_effects w w'
                = [SessionStarted, TransactionStarted, TransactionAborted, SessionEnded])
    \<and> (\<forall>oid. castObjectId orderId = Some oid \<and> orders w oid = None \<longrightarrow>
            r = Inl (NotFoundException (''Order with ID '' @ orderId @ '' not found''))
            \<and> orders w' = orders w \<and> stock w' = stock w
            \<and> new_effects w w'
                = [SessionStarted, TransactionStarted, TransactionAborted, SessionEnded])
    \<and> (\<forall>oid doc m. castObjectId orderId = Some oid \<and> orders w oid = Some doc
            \<and> r = Inl (NotFoundException m) \<longrightarrow>
            fst (inventoryService d (items doc) (stock w)) = Some (NotFoundException m))"
proof (cases "castObjectId orderId")
  case None
  from processOrder_cast_error [OF None, of d st w] assms None
  show ?thesis by (auto simp: new_effects_def)
next
  case (Some oid)
  show ?thesis
  proof (cases "orders w oid")
    case None
    from processOrder_not_found [OF Some None, of d st] assms Some None
    show ?thesis by (auto simp: new_effects_def)
  next
    case (Some doc)
    note found = this
    show ?thesis
    proof (cases "inventoryService d (items doc) (stock w)")
      case (Pair failed st')
      show ?thesis
      proof (cases failed)
        case None
        with Pair processOrder_committed [OF \<open>castObjectId orderId = Some oid\<close> found, of d st' st]
          assms \<open>castObjectId orderId = Some oid\<close> found
        show ?thesis by (auto split: option.splits)
      next
        case (Some e)
        with Pair processOrder_adjuster_failed [OF \<open>castObjectId orderId = Some oid\<close> found, of d e st' st]
          assms \<open>castObjectId orderId = Some oid\<close> found
        show ?thesis by auto
      qed
    qed
  qed
qed

theorem processOrder_missing_order_witness:
  "castObjectId id_o9 = Some id_o9 \<and> orders shop id_o9 = None
   \<and> fst (processOrder shop_deps id_o9 PAID shop)
       = Inl (NotFoundException (''Order with ID '' @ id_o9 @ '' not found''))
   \<and> orders (snd (processOrder shop_deps id_o9 PAID shop)) = orders shop
   \<and> stock (snd (processOrder shop_deps id_o9 PAID shop)) = stock shop
   \<and> castObjectId ''o9'' = None
   \<and> fst (processOrder shop_deps ''o9'' PAID shop) = Inl (CastError ''o9'')
   \<and> orders (snd (processOrder shop_deps ''o9'' PAID shop)) = orders shop
   \<and> stock (snd (processOrder shop_deps ''o9'' PAID shop)) = stock shop"
proof -
  have h1: "orders shop id_o9 = None"
    by (simp add: shop_defs)
  from processOrder_missing_order [where d = shop_deps and orderId = id_o9 and st = PAID
      and w = shop, OF surjective_pairing]
    processOrder_missing_order [where d = shop_deps and orderId = "''o9''" and st = PAID
      and w = shop, OF surjective_pairing]
    h1 cast_shop_ids(4) cast_malformed
  show ?thesis by simp
qed

text \<open>
  Claim C7. On every execution of \<open>processOrder\<close>, whatever the collaborators do and however
  the call ends, exactly one session is started and exactly one is ended, and ending the
  session is the last effect of the call.
\<close>

theorem processOrder_releases_session:
  "count_list (new_effects w (snd (processOrder d orderId st w))) SessionStarted = 1
   \<and> count_list (new_effects w (snd (processOrder d orderId st w))) SessionEnded = 1
   \<and> last (new_effects w (snd (processOrder d orderId st w))) = SessionEnded"
proof (cases "castObjectId orderId")
  case None
  from processOrder_cast_error [OF None, of d st w]
  show ?thesis by (simp add: new_effects_def)
next
  case (Some oid)
  note cast = this
  show ?thesis
  proof (cases "orders w oid")
    case None
    from processOrder_not_found [OF cast None, of d st]
    show ?thesis by (simp add: new_effects_def)
  next
    case (Some doc)
    note found = this
    show ?thesis
    proof (cases "inventoryService d (items doc) (stock w)")
      case (Pair failed st')
      show ?thesis
      proof (cases failed)
        case None
        with Pair processOrder_committed [OF cast found, of d st' st]
        show ?thesis by (simp add: new_effects_def)
      next
        case (Some e)
        with Pair processOrder_adjuster_failed [OF cast found, of d e st' st]
        show ?thesis by (simp add: new_effects_def)
      qed
    qed
  qed
qed

theorem processOrder_releases_session_witness:
  "count_list (new_effects shop (snd (processOrder shop_deps id_o1 PAID shop))) SessionEnded = 1"
  using processOrder_releases_session [where d = shop_deps and orderId = id_o1 and st = PAID
      and w = shop]
  by simp




text \<open>
  Claim C9. When the identity of the new order is free and the gateway answers the request
  made from the requested amount, the metadata holding the new order's identity and the
  caller's customer reference with a payment intent, \<open>placeOrder\<close> returns that intent's client
  secret; the save and that one request are all the effects of the call, so nothing waits
  for the payment to complete.
\<close>

theorem placeOrder_returns_client_secret:
  assumes "orders w new_id = None"
    and "stripeService d (dto_amount order) [(''order_id'', new_id)] stripeCustomerId = Inr paymentIntent"
    and "placeOrder d new_id order stripeCustomerId w = (r, w')"
  shows "r = Inr (client_secret paymentIntent)
    \<and> new_effects w w' =
        [OrderSaved new_id,
         PaymentIntentRequested (dto_amount order) [(''order_id'', new_id)] stripeCustomerId]"
  using placeOrder_fresh [OF assms(1), of d order stripeCustomerId] assms(2,3)
  by (auto simp: new_effects_def)

theorem placeOrder_returns_client_secret_witness:
  "orders shop id_o4 = None
   \<and> fst (placeOrder shop_deps id_o4 new_order ''cus_1'' shop) = Inr ''pi_1_secret''
   \<and> new_effects shop (snd (placeOrder shop_deps id_o4 new_order ''cus_1'' shop))
       = [OrderSaved id_o4, PaymentIntentRequested 10 [(''order_id'', id_o4)] ''cus_1'']"
proof -
  have h1: "orders shop id_o4 = None"
    by (simp add: shop_defs)
  have h2: "stripeService shop_deps (dto_amount new_order) [(''order_id'', id_o4)] ''cus_1''
              = Inr \<lparr>intent_id = ''pi_1'', client_secret = ''pi_1_secret''\<rparr>"
    by (simp add: shop_deps_def)
  from placeOrder_returns_client_secret [where d = shop_deps, OF h1 h2 surjective_pairing] h1
  show ?thesis by (simp add: new_order_def)
qed

text \<open>
  Claim C10. The two cart services are equivalent up to the names of their methods: on
  every cart collection and every input, corresponding methods return the same result (or
  raise the same error) and leave the collection in the same state.
\<close>

theorem cart_services_equivalent:
  "getById i cs = getCartById i cs
   \<and> getWithItemsById catalogue i cs = getCartWithItemsById catalogue i cs
   \<and> getWithItemsByUserId catalogue userId cs = getWithItemsByUserId_b catalogue userId cs
   \<and> addItem new_id userId newItem cs = addItemToCart new_id userId newItem cs
   \<and> updateItem i newItem cs = updateItemInCart i newItem cs
   \<and> removeItem i itemId cs = removeItemFromCart i itemId cs
   \<and> updateItemQuantity i itemId upd cs = updateItemQuantityInCart i itemId upd cs
   \<and> addShippingOption i addDto cs = addShippingToCart i addDto cs
   \<and> removeShippingOption i removeDto cs = removeShippingInCart i removeDto cs
   \<and> remove_cart i cs = removeCart i cs"
  unfolding getById_def getCartById_def getWithItemsById_def getCartWithItemsById_def
    getWithItemsByUserId_def getWithItemsByUserId_b_def addItem_def addItemToCart_def
    createWithItem_def createCartWithItem_def addItemToExisting_def addItemToExistingCart_def
    updateItem_def updateItemInCart_def getByIdOrThrow_def getCartByIdOrThrow_def
    removeItem_def removeItemFromCart_def updateItemQuantity_def updateItemQuantityInCart_def
    addShippingOption_def addShippingToCart_def removeShippingOption_def removeShippingInCart_def
    remove_cart_def removeCart_def
  by (intro conjI refl)

theorem cart_services_equivalent_witness:
  "removeItem ''c1'' ''X'' some_carts = removeItemFromCart ''c1'' ''X'' some_carts
   \<and> removeItemFromCart ''c1'' ''X'' some_carts
       = (Inl (NotFoundException ''Item with ID c1 not found in cart''), some_carts)
   \<and> addShippingOption ''c1'' \<lparr>add_shipping = [''post'', ''air'', ''air'']\<rparr> some_carts
       = addShippingToCart ''c1'' \<lparr>add_shipping = [''post'', ''air'', ''air'']\<rparr> some_carts
   \<and> map shipping (snd (addShippingToCart ''c1'' \<lparr>add_shipping = [''post'', ''air'', ''air'']\<rparr> some_carts))
       = [[''post'', ''air'', ''air'']]"
proof -
  have b1: "removeItemFromCart ''c1'' ''X'' some_carts
       = (Inl (NotFoundException ''Item with ID c1 not found in cart''), some_carts)"
    by (simp add: removeItemFromCart_def getCartByIdOrThrow_def findById_def some_carts_def)
  have b2: "map shipping (snd (addShippingToCart ''c1''
       \<lparr>add_shipping = [''post'', ''air'', ''air'']\<rparr> some_carts)) = [[''post'', ''air'', ''air'']]"
    by (simp add: addShippingToCart_def getCartByIdOrThrow_def findById_def some_carts_def
        save_def Let_def)
  from cart_services_equivalent [where i = "''c1''" and itemId = "''X''" and cs = some_carts
      and addDto = "\<lparr>add_shipping = [''post'', ''air'', ''air'']\<rparr>"
      and catalogue = "Map.empty :: string \<rightharpoonup> unit" and userId = "''u1''"
      and new_id = "''c2''" and newItem = "\<lparr>dto_id = ''A'', dto_quantity = 1\<rparr>"
      and upd = "\<lparr>upd_quantity = 2\<rparr>" and removeDto = "\<lparr>remove_shipping = ''post''\<rparr>"] b1 b2
  show ?thesis by simp
qed

end
